theory Spec2Isabelle
  imports Complex_Main
begin

section \<open>JavaScript strings\<close>

text \<open>
  A JavaScript string is modelled as a \<open>string\<close>: each \<open>char\<close> stands for one UTF-16 code
  unit below 256 (the Latin-1 range).  The helpers below are the library functions and the
  regular expressions that the chart code applies to cell text.
\<close>

definition code :: "char \<Rightarrow> int" where
  "code c = of_char c"

definition is_digit :: "char \<Rightarrow> bool" where
  \<comment> \<open>the regular expression class \<open>\d\<close>\<close>
  "is_digit c = (48 \<le> code c \<and> code c \<le> 57)"

definition is_word :: "char \<Rightarrow> bool" where
  \<comment> \<open>the regular expression class \<open>\w\<close>: letters, digits and the underscore\<close>
  "is_word c = (is_digit c \<or> (65 \<le> code c \<and> code c \<le> 90)
                \<or> (97 \<le> code c \<and> code c \<le> 122) \<or> code c = 95)"

definition is_space :: "char \<Rightarrow> bool" where
  \<comment> \<open>white space and line terminators below 256: TAB, LF, VT, FF, CR, SP, NBSP\<close>
  "is_space c = (code c \<in> {9, 10, 11, 12, 13, 32, 160})"

definition lower_char :: "char \<Rightarrow> char" where
  "lower_char c =
     (if (65 \<le> code c \<and> code c \<le> 90) \<or> (192 \<le> code c \<and> code c \<le> 222 \<and> code c \<noteq> 215)
      then char_of (code c + 32) else c)"

definition toLowerCase :: "string \<Rightarrow> string" where
  "toLowerCase s = map lower_char s"

definition trimStart :: "string \<Rightarrow> string" where
  "trimStart s = dropWhile is_space s"

definition trim :: "string \<Rightarrow> string" where
  "trim s = rev (dropWhile is_space (rev (dropWhile is_space s)))"

definition startsWith :: "string \<Rightarrow> string \<Rightarrow> bool" where
  \<comment> \<open>\<open>s.startsWith(p)\<close>\<close>
  "startsWith s p = (take (length p) s = p)"

fun str_includes :: "string \<Rightarrow> string \<Rightarrow> bool" where
  \<comment> \<open>\<open>s.includes(p)\<close>: \<open>p\<close> occurs in \<open>s\<close> as a contiguous substring\<close>
  "str_includes [] p = (p = [])"
| "str_includes (c # cs) p = (startsWith (c # cs) p \<or> str_includes cs p)"

definition keep_numeric :: "char \<Rightarrow> bool" where
  "keep_numeric c = (is_digit c \<or> c = CHR ''.'' \<or> c = CHR ''-'')"

definition strip_non_numeric :: "string \<Rightarrow> string" where
  \<comment> \<open>\<open>s.replace(/[^\d.-]/g, '')\<close>\<close>
  "strip_non_numeric s = filter keep_numeric s"

definition test_four_digits :: "string \<Rightarrow> bool" where
  \<comment> \<open>\<open>/^\d{4}$/.test(s)\<close>\<close>
  "test_four_digits s = (length s = 4 \<and> list_all is_digit s)"

definition test_20xx :: "string \<Rightarrow> bool" where
  \<comment> \<open>\<open>/^20\d{2}$/.test(s)\<close>\<close>
  "test_20xx s = (test_four_digits s \<and> take 2 s = ''20'')"

fun match_year_from :: "bool \<Rightarrow> string \<Rightarrow> string option" where
  \<comment> \<open>the scan of \<open>/\b(20\d{2})\b/\<close>; the flag says whether the previous character is a
      word character\<close>
  "match_year_from prev_word [] = None"
| "match_year_from prev_word (c # cs) =
     (if \<not> prev_word \<and> test_20xx (take 4 (c # cs))
         \<and> (case drop 3 cs of [] \<Rightarrow> True | d # _ \<Rightarrow> \<not> is_word d)
      then Some (take 4 (c # cs))
      else match_year_from (is_word c) cs)"

definition match_year :: "string \<Rightarrow> string option" where
  \<comment> \<open>\<open>s.match(/\b(20\d{2})\b/)\<close>: capture group 1 of the leftmost match\<close>
  "match_year s = match_year_from False s"

section \<open>JavaScript numbers\<close>

text \<open>
  A number is \<open>NaN\<close>, an infinity or a finite value.  Finite values are exact rationals:
  the rounding of IEEE doubles is not modelled, and the two zeros are one value.
\<close>

datatype jsnum = NaN | NInf | Fin rat | PInf

fun isNaN :: "jsnum \<Rightarrow> bool" where
  "isNaN NaN = True"
| "isNaN _ = False"

fun js_lt :: "jsnum \<Rightarrow> jsnum \<Rightarrow> bool" where
  \<comment> \<open>\<open>a < b\<close>\<close>
  "js_lt NaN _ = False"
| "js_lt _ NaN = False"
| "js_lt NInf NInf = False"
| "js_lt NInf _ = True"
| "js_lt (Fin a) (Fin b) = (a < b)"
| "js_lt (Fin a) PInf = True"
| "js_lt (Fin a) NInf = False"
| "js_lt PInf _ = False"

definition js_gt :: "jsnum \<Rightarrow> jsnum \<Rightarrow> bool" where
  "js_gt a b = js_lt b a"

definition js_le :: "jsnum \<Rightarrow> jsnum \<Rightarrow> bool" where
  \<comment> \<open>\<open>a <= b\<close>\<close>
  "js_le a b = (\<not> isNaN a \<and> \<not> isNaN b \<and> \<not> js_lt b a)"

fun js_neg :: "jsnum \<Rightarrow> jsnum" where
  "js_neg NaN = NaN"
| "js_neg NInf = PInf"
| "js_neg (Fin a) = Fin (- a)"
| "js_neg PInf = NInf"

fun js_add :: "jsnum \<Rightarrow> jsnum \<Rightarrow> jsnum" where
  "js_add NaN _ = NaN"
| "js_add _ NaN = NaN"
| "js_add PInf NInf = NaN"
| "js_add NInf PInf = NaN"
| "js_add PInf _ = PInf"
| "js_add _ PInf = PInf"
| "js_add NInf _ = NInf"
| "js_add _ NInf = NInf"
| "js_add (Fin a) (Fin b) = Fin (a + b)"

definition js_sub :: "jsnum \<Rightarrow> jsnum \<Rightarrow> jsnum" where
  "js_sub a b = js_add a (js_neg b)"

fun js_abs :: "jsnum \<Rightarrow> jsnum" where
  \<comment> \<open>\<open>Math.abs\<close>\<close>
  "js_abs NaN = NaN"
| "js_abs NInf = PInf"
| "js_abs (Fin a) = Fin \<bar>a\<bar>"
| "js_abs PInf = PInf"

fun js_sgn :: "jsnum \<Rightarrow> int" where
  "js_sgn NaN = 0"
| "js_sgn NInf = - 1"
| "js_sgn (Fin a) = (if a < 0 then - 1 else if a = 0 then 0 else 1)"
| "js_sgn PInf = 1"

fun js_mul :: "jsnum \<Rightarrow> jsnum \<Rightarrow> jsnum" where
  "js_mul NaN _ = NaN"
| "js_mul _ NaN = NaN"
| "js_mul (Fin a) (Fin b) = Fin (a * b)"
| "js_mul a b =
     (let s = js_sgn a * js_sgn b
      in if s = 0 then NaN else if s < 0 then NInf else PInf)"

fun js_div :: "jsnum \<Rightarrow> jsnum \<Rightarrow> jsnum" where
  \<comment> \<open>\<open>a / b\<close>; a zero divisor is the positive zero\<close>
  "js_div NaN _ = NaN"
| "js_div _ NaN = NaN"
| "js_div (Fin a) (Fin b) =
     (if b = 0 then (if a = 0 then NaN else if a < 0 then NInf else PInf) else Fin (a / b))"
| "js_div (Fin a) _ = Fin 0"
| "js_div a (Fin b) = (if js_sgn a * (if b < 0 then - 1 else 1) < 0 then NInf else PInf)"
| "js_div _ _ = NaN"

fun js_max :: "jsnum \<Rightarrow> jsnum \<Rightarrow> jsnum" where
  \<comment> \<open>\<open>Math.max(a, b)\<close>\<close>
  "js_max NaN _ = NaN"
| "js_max _ NaN = NaN"
| "js_max a b = (if js_lt a b then b else a)"

fun js_min :: "jsnum \<Rightarrow> jsnum \<Rightarrow> jsnum" where
  \<comment> \<open>\<open>Math.min(a, b)\<close>\<close>
  "js_min NaN _ = NaN"
| "js_min _ NaN = NaN"
| "js_min a b = (if js_lt b a then b else a)"

definition Math_max :: "jsnum list \<Rightarrow> jsnum" where
  \<comment> \<open>\<open>Math.max(...xs)\<close>; with no argument the result is \<open>-Infinity\<close>\<close>
  "Math_max xs = foldl js_max NInf xs"

definition Math_min :: "jsnum list \<Rightarrow> jsnum" where
  \<comment> \<open>\<open>Math.min(...xs)\<close>; with no argument the result is \<open>Infinity\<close>\<close>
  "Math_min xs = foldl js_min PInf xs"

subsection \<open>Parsing\<close>

definition digit_val :: "char \<Rightarrow> int" where
  "digit_val c = code c - 48"

definition digits_val :: "string \<Rightarrow> int" where
  \<comment> \<open>the value of a string of decimal digits\<close>
  "digits_val ds = foldl (\<lambda>a c. 10 * a + digit_val c) 0 ds"

definition pow10 :: "int \<Rightarrow> rat" where
  "pow10 e = (if 0 \<le> e then 10 ^ nat e else 1 / 10 ^ nat (- e))"

definition split_sign :: "string \<Rightarrow> bool \<times> string" where
  \<comment> \<open>an optional leading sign; the flag is true for \<open>-\<close>\<close>
  "split_sign s =
     (case s of
        [] \<Rightarrow> (False, [])
      | c # r \<Rightarrow> if c = CHR ''-'' then (True, r) else if c = CHR ''+'' then (False, r)
                 else (False, s))"

definition exponent_part :: "string \<Rightarrow> int" where
  \<comment> \<open>the ExponentPart of a decimal literal, when one is there: \<open>e\<close> or \<open>E\<close>, an optional
      sign and at least one digit\<close>
  "exponent_part s =
     (case s of
        [] \<Rightarrow> 0
      | c # r \<Rightarrow>
          if c = CHR ''e'' \<or> c = CHR ''E'' then
            (let (neg, r2) = split_sign r; ed = takeWhile is_digit r2
             in if ed = [] then 0
                else if neg then - digits_val ed else digits_val ed)
          else 0)"

definition parseFloat :: "string \<Rightarrow> jsnum" where
  \<comment> \<open>\<open>parseFloat(s)\<close>: the longest prefix of the trimmed text that is a decimal literal\<close>
  "parseFloat str =
     (let (neg, s2) = split_sign (trimStart str)
      in if startsWith s2 ''Infinity'' then (if neg then NInf else PInf)
         else
           let ip = takeWhile is_digit s2;
               s3 = dropWhile is_digit s2;
               (fp, s4) = (case s3 of
                             [] \<Rightarrow> ([], [])
                           | c # r \<Rightarrow> if c = CHR ''.''
                                      then (takeWhile is_digit r, dropWhile is_digit r)
                                      else ([], s3))
           in if ip = [] \<and> fp = [] then NaN
              else
                let m = rat_of_int (digits_val ip) + rat_of_int (digits_val fp) / 10 ^ length fp
                in Fin ((if neg then - m else m) * pow10 (exponent_part s4)))"

definition hex_val :: "char \<Rightarrow> int option" where
  "hex_val c =
     (if is_digit c then Some (code c - 48)
      else if 97 \<le> code c \<and> code c \<le> 102 then Some (code c - 87)
      else if 65 \<le> code c \<and> code c \<le> 70 then Some (code c - 55)
      else None)"

definition parseInt :: "string \<Rightarrow> jsnum" where
  \<comment> \<open>\<open>parseInt(s)\<close> with no radix: a \<open>0x\<close> prefix selects base 16, else base 10\<close>
  "parseInt str =
     (let (neg, s2) = split_sign (trimStart str);
          hex = (startsWith s2 ''0x'' \<or> startsWith s2 ''0X'');
          ds = (if hex then takeWhile (\<lambda>c. hex_val c \<noteq> None) (drop 2 s2)
                else takeWhile is_digit s2);
          n = (if hex then foldl (\<lambda>a c. 16 * a + the (hex_val c)) 0 ds else digits_val ds)
      in if ds = [] then NaN
         else Fin (if neg then - rat_of_int n else rat_of_int n))"

subsection \<open>Printing\<close>

definition digit_char :: "nat \<Rightarrow> char" where
  "digit_char d = char_of (48 + d)"

function digits_of :: "int \<Rightarrow> string" where
  \<comment> \<open>the decimal digits of a non-negative integer\<close>
  "digits_of n =
     (if n < 10 then [digit_char (nat n)]
      else digits_of (n div 10) @ [digit_char (nat (n mod 10))])"
  by pat_completeness auto
termination
  by (relation "measure nat") auto

declare digits_of.simps [simp del]

definition is_integer :: "rat \<Rightarrow> bool" where
  "is_integer x = (rat_of_int \<lfloor>x\<rfloor> = x)"

fun find_scale :: "nat \<Rightarrow> rat \<Rightarrow> nat \<Rightarrow> nat option" where
  \<comment> \<open>the least \<open>j\<close> from the given start, within the fuel, for which \<open>a * 10 ^ j\<close> is an
      integer\<close>
  "find_scale 0 a j = (if is_integer (a * 10 ^ j) then Some j else None)"
| "find_scale (Suc fuel) a j =
     (if is_integer (a * 10 ^ j) then Some j else find_scale fuel a (Suc j))"

definition format_digits :: "string \<Rightarrow> int \<Rightarrow> string" where
  \<comment> \<open>Number::toString of ECMAScript for the value \<open>s * 10 ^ (n - k)\<close>, where \<open>s\<close> is the
      digit string of length \<open>k\<close> with no trailing zero\<close>
  "format_digits s n =
     (let k = int (length s)
      in if k \<le> n \<and> n \<le> 21 then s @ replicate (nat (n - k)) (CHR ''0'')
         else if 0 < n \<and> n \<le> 21 then take (nat n) s @ ''.'' @ drop (nat n) s
         else if - 6 < n \<and> n \<le> 0 then ''0.'' @ replicate (nat (- n)) (CHR ''0'') @ s
         else
           let e = n - 1;
               es = (if e < 0 then ''-'' else ''+'') @ digits_of \<bar>e\<bar>
           in if k = 1 then s @ ''e'' @ es
              else take 1 s @ ''.'' @ drop 1 s @ ''e'' @ es)"

definition positive_to_string :: "rat \<Rightarrow> string" where
  \<comment> \<open>a positive value with a finite decimal expansion; any other rational is the exact
      value of no double, and is printed as a quotient only to keep the function total\<close>
  "positive_to_string a =
     (case find_scale (nat (snd (quotient_of a))) a 0 of
        None \<Rightarrow> digits_of (fst (quotient_of a)) @ ''/'' @ digits_of (snd (quotient_of a))
      | Some j \<Rightarrow>
          let D = digits_of \<lfloor>a * 10 ^ j\<rfloor>;
              t = length (takeWhile (\<lambda>c. c = CHR ''0'') (rev D));
              s = take (length D - t) D
          in format_digits s (int (length D) - int j))"

fun numToString :: "jsnum \<Rightarrow> string" where
  \<comment> \<open>\<open>String(x)\<close> and \<open>x.toString()\<close> on a number\<close>
  "numToString NaN = ''NaN''"
| "numToString PInf = ''Infinity''"
| "numToString NInf = ''-Infinity''"
| "numToString (Fin a) =
     (if a = 0 then ''0''
      else if a < 0 then ''-'' @ positive_to_string (- a)
      else positive_to_string a)"

definition int_str :: "int \<Rightarrow> string" where
  "int_str i = numToString (Fin (rat_of_int i))"

definition nat_str :: "nat \<Rightarrow> string" where
  "nat_str n = numToString (Fin (rat_of_nat n))"

section \<open>Cells and grids\<close>

text \<open>
  The grid is an \<open>any[][]\<close>.  A cell is a string, a number or empty (\<open>null\<close> or
  \<open>undefined\<close>); reading a row past its end gives \<open>undefined\<close>.
\<close>

datatype cell = CUndefined | CNull | CStr string | CNum jsnum

type_synonym row = "cell list"
type_synonym grid = "row list"

fun truthy :: "cell \<Rightarrow> bool" where
  "truthy CUndefined = False"
| "truthy CNull = False"
| "truthy (CStr s) = (s \<noteq> [])"
| "truthy (CNum n) = (n \<noteq> NaN \<and> n \<noteq> Fin 0)"

definition or_else :: "cell \<Rightarrow> cell \<Rightarrow> cell" where
  \<comment> \<open>\<open>a || b\<close>\<close>
  "or_else a b = (if truthy a then a else b)"

fun toStr :: "cell \<Rightarrow> string" where
  \<comment> \<open>\<open>String(x)\<close>, also the conversion of a template literal\<close>
  "toStr CUndefined = ''undefined''"
| "toStr CNull = ''null''"
| "toStr (CStr s) = s"
| "toStr (CNum n) = numToString n"

definition cell_at :: "row \<Rightarrow> nat \<Rightarrow> cell" where
  \<comment> \<open>\<open>row[i]\<close>\<close>
  "cell_at r i = (if i < length r then r ! i else CUndefined)"

fun indexOf :: "int list \<Rightarrow> int \<Rightarrow> int" where
  \<comment> \<open>\<open>xs.indexOf(x)\<close>: the first position of \<open>x\<close>, or \<open>-1\<close>\<close>
  "indexOf [] x = - 1"
| "indexOf (y # ys) x =
     (if y = x then 0 else (let r = indexOf ys x in if r = - 1 then - 1 else 1 + r))"

section \<open>The chart component\<close>

text \<open>
  The component is in \<^verbatim>\<open>src/client/components/DataChart.tsx\<close> and, in a later variant
  that also takes the selected years, in \<^verbatim>\<open>src/unnamed/part_001\<close>.  Definitions
  with the suffix \<open>_client\<close> follow the first file, those with the suffix \<open>_part001\<close> the
  second; a definition without suffix is code that both files have in the same words.
  The colours and border widths of a dataset are presentation and are left out.
  The years of the props \<open>selectedYear\<close> and \<open>selectedYears\<close> are integers; the value
  \<open>None\<close> of the selected year stands for \<open>undefined\<close> and for \<open>null\<close>, which
  both variants treat alike.  A grid with fewer than two rows takes the early return.
\<close>

datatype chart_type = Bar | Line | Pie | Doughnut

record dataset =
  label :: string
  data :: "jsnum list"

record ChartData =
  labels :: "string list"
  datasets :: "dataset list"

definition sanitizeNumber :: "cell \<Rightarrow> jsnum" where
  \<comment> \<open>the cell value of the bar and line branch:
      \<open>parseFloat(String(rawValue || 0).replace(/[^\d.-]/g, ''))\<close>, and 0 for NaN\<close>
  "sanitizeNumber rawValue =
     (let value = parseFloat (strip_non_numeric (toStr (or_else rawValue (CNum (Fin 0)))))
      in if isNaN value then Fin 0 else value)"

definition sanitizeNumberPie :: "cell \<Rightarrow> jsnum" where
  \<comment> \<open>the cell value inside \<open>extractPieChartData\<close>\<close>
  "sanitizeNumberPie rawValue =
     (if rawValue \<noteq> CNull \<and> rawValue \<noteq> CUndefined \<and> rawValue \<noteq> CStr []
      then (let parsedValue = parseFloat (strip_non_numeric (toStr rawValue))
            in if \<not> isNaN parsedValue then parsedValue else Fin 0)
      else Fin 0)"

definition rowHasOnlyYears :: "row \<Rightarrow> bool" where
  \<comment> \<open>the test of \<open>firstRowHasOnlyYears\<close> and of \<open>secondRowHasYears\<close>\<close>
  "rowHasOnlyYears r =
     list_all (\<lambda>cell. let str = trim (toStr (or_else cell (CStr [])))
                      in str = [] \<or> test_four_digits str \<or> test_20xx str)
              (drop 1 r)"

definition resolveHeader :: "row \<Rightarrow> row \<Rightarrow> grid \<Rightarrow> row \<times> grid" where
  \<comment> \<open>the header row and the data rows of the grid \<open>row0 # row1 # rest\<close>\<close>
  "resolveHeader row0 row1 rest =
     (let firstRowHasOnlyYears = rowHasOnlyYears row0;
          secondRowHasYears = rowHasOnlyYears row1
      in if firstRowHasOnlyYears \<and> \<not> secondRowHasYears then (row0, row1 # rest)
         else if secondRowHasYears \<and> \<not> firstRowHasOnlyYears then (row1, row0 # rest)
         else (row0, row1 # rest))"

definition keepDataRow :: "row \<Rightarrow> bool" where
  \<comment> \<open>the predicate of \<open>dataRows.filter\<close>\<close>
  "keepDataRow r =
     (let firstCol = trim (toStr (or_else (cell_at r 0) (CStr [])))
      in \<not> (str_includes (toLowerCase firstCol) ''tahun''
            \<or> str_includes (toLowerCase firstCol) ''year''
            \<or> test_four_digits firstCol
            \<or> firstCol = []))"

definition rowLabel :: "row \<Rightarrow> nat \<Rightarrow> string" where
  "rowLabel r index =
     (let lbl = toStr (or_else (cell_at r 0) (CStr (''Row '' @ nat_str (index + 1))))
      in if trim lbl \<noteq> [] then trim lbl else ''Item '' @ nat_str (index + 1))"

definition rowLabels :: "grid \<Rightarrow> string list" where
  "rowLabels rows = map (\<lambda>(index, r). rowLabel r index) (enumerate 0 rows)"

definition pieLabel :: "row \<Rightarrow> nat \<Rightarrow> string" where
  \<comment> \<open>the label of a row inside \<open>extractPieChartData\<close>\<close>
  "pieLabel r rowIndex =
     trim (toStr (or_else (cell_at r 0) (CStr (''Item '' @ nat_str (rowIndex + 1)))))"

definition pieKeep :: "string \<Rightarrow> jsnum \<Rightarrow> bool" where
  \<comment> \<open>the condition under which a row becomes a slice\<close>
  "pieKeep lbl value =
     (lbl \<noteq> [] \<and> \<not> str_includes (toLowerCase lbl) ''total'' \<and> js_gt value (Fin 0))"

fun extractPieRows :: "nat \<Rightarrow> nat \<Rightarrow> grid \<Rightarrow> string list \<times> jsnum list" where
  \<comment> \<open>the \<open>forEach\<close> of \<open>extractPieChartData\<close>, from row \<open>rowIndex\<close> on; the first
      list is \<open>labels\<close>, the second \<open>values\<close>\<close>
  "extractPieRows yearColumnIndex rowIndex [] = ([], [])"
| "extractPieRows yearColumnIndex rowIndex (r # rows) =
     (let lbl = pieLabel r rowIndex;
          value = sanitizeNumberPie (cell_at r yearColumnIndex);
          (ls, vs) = extractPieRows yearColumnIndex (rowIndex + 1) rows
      in if pieKeep lbl value then (lbl # ls, value # vs) else (ls, vs))"

definition extractPieChartData :: "row \<Rightarrow> grid \<Rightarrow> nat \<Rightarrow> string list \<times> jsnum list" where
  \<comment> \<open>the headers are read for the log only\<close>
  "extractPieChartData headers dataRows yearColumnIndex =
     extractPieRows yearColumnIndex 0 dataRows"

definition columnValues :: "grid \<Rightarrow> nat \<Rightarrow> jsnum list" where
  \<comment> \<open>\<open>filteredDataRows.map(row => ...)\<close> of the bar and line branch, for column \<open>i\<close>\<close>
  "columnValues filteredDataRows i = map (\<lambda>r. sanitizeNumber (cell_at r i)) filteredDataRows"

definition pieResult :: "string list \<Rightarrow> cell \<Rightarrow> string list \<times> jsnum list \<Rightarrow> ChartData" where
  \<comment> \<open>the end of the pie branch: the dataset is pushed and the labels are replaced only
      when a slice was extracted\<close>
  "pieResult labels0 targetYear pieData =
     (if length (fst pieData) > 0 \<and> length (snd pieData) > 0
      then \<lparr>labels = fst pieData,
            datasets = [\<lparr>label = ''Data Tahun '' @ toStr targetYear, data = snd pieData\<rparr>]\<rparr>
      else \<lparr>labels = labels0, datasets = []\<rparr>)"

subsection \<open>The variant that takes the selected years\<close>

definition columnLabel_part001 :: "int list \<Rightarrow> row \<Rightarrow> nat \<Rightarrow> string" where
  "columnLabel_part001 selectedYears headers i =
     (if length selectedYears \<ge> i then int_str (selectedYears ! (i - 1))
      else
        let year = trim (toStr (or_else (cell_at headers i) (CStr [])))
        in case match_year year of
             Some y \<Rightarrow> y
           | None \<Rightarrow> if test_four_digits year then year else ''Tahun '' @ nat_str i)"

definition processDataForChart_part001 ::
    "chart_type \<Rightarrow> grid \<Rightarrow> int option \<Rightarrow> int list \<Rightarrow> ChartData" where
  "processDataForChart_part001 type grid selectedYear selectedYears =
     (case grid of
        row0 # row1 # rest \<Rightarrow>
          (let (headers, dataRows) = resolveHeader row0 row1 rest;
               filteredDataRows = filter keepDataRow dataRows;
               labels0 = rowLabels filteredDataRows
           in if type = Pie \<or> type = Doughnut then
                (let targetColumnIndex =
                       (case selectedYear of
                          Some y \<Rightarrow>
                            if length selectedYears > 0 \<and> indexOf selectedYears y \<noteq> - 1
                            then 1 + indexOf selectedYears y else - 1
                        | None \<Rightarrow> - 1)
                 in if targetColumnIndex = - 1 then \<lparr>labels = [], datasets = []\<rparr>
                    else pieResult labels0
                           (case selectedYear of Some y \<Rightarrow> CNum (Fin (rat_of_int y))
                                               | None \<Rightarrow> CUndefined)
                           (extractPieChartData headers filteredDataRows (nat targetColumnIndex)))
              else
                \<lparr>labels = labels0,
                 datasets = map (\<lambda>i. \<lparr>label = columnLabel_part001 selectedYears headers i,
                                       data = columnValues filteredDataRows i\<rparr>)
                                [1 ..< length headers]\<rparr>)
      | _ \<Rightarrow> \<lparr>labels = [], datasets = []\<rparr>)"

subsection \<open>The variant that reads the years from the header\<close>

definition headerText :: "row \<Rightarrow> nat \<Rightarrow> string" where
  \<comment> \<open>\<open>String(headers[i] || '').trim()\<close>\<close>
  "headerText headers i = trim (toStr (or_else (cell_at headers i) (CStr [])))"

definition headerMatchesYear :: "string \<Rightarrow> int \<Rightarrow> bool" where
  \<comment> \<open>the three methods of \<open>findYearColumnIndex\<close> on one header text\<close>
  "headerMatchesYear header targetYear =
     (header = int_str targetYear
      \<or> (\<not> isNaN (parseInt header) \<and> parseInt header = Fin (rat_of_int targetYear))
      \<or> (case match_year header of
            Some y \<Rightarrow> parseInt y = Fin (rat_of_int targetYear)
          | None \<Rightarrow> False))"

fun findYearFrom :: "row \<Rightarrow> int \<Rightarrow> nat list \<Rightarrow> int" where
  \<comment> \<open>the loop of \<open>findYearColumnIndex\<close> over the remaining column indices\<close>
  "findYearFrom headers targetYear [] = - 1"
| "findYearFrom headers targetYear (i # is) =
     (if headerMatchesYear (headerText headers i) targetYear then int i
      else findYearFrom headers targetYear is)"

definition findYearColumnIndex :: "row \<Rightarrow> int \<Rightarrow> int" where
  "findYearColumnIndex headers targetYear =
     findYearFrom headers targetYear [1 ..< length headers]"

record closest =
  closestYear :: "int option"
  minDifference :: jsnum
  targetColumnIndex :: int

definition closestStep :: "row \<Rightarrow> int \<Rightarrow> closest \<Rightarrow> nat \<Rightarrow> closest" where
  \<comment> \<open>one round of the loop that looks for the closest year\<close>
  "closestStep headers selectedYear st i =
     (case match_year (headerText headers i) of
        None \<Rightarrow> st
      | Some m \<Rightarrow>
          (case parseInt m of
             Fin year \<Rightarrow>
               let difference = Fin \<bar>year - rat_of_int selectedYear\<bar>
               in if js_lt difference (minDifference st)
                  then \<lparr>closestYear = Some \<lfloor>year\<rfloor>, minDifference = difference,
                        targetColumnIndex = int i\<rparr>
                  else st
           | _ \<Rightarrow> st))"

definition columnLabel_client :: "row \<Rightarrow> nat \<Rightarrow> string" where
  "columnLabel_client headers i =
     (let year = trim (toStr (or_else (cell_at headers i) (CStr (''Column '' @ nat_str i))))
      in case match_year year of Some y \<Rightarrow> y | None \<Rightarrow> year)"

definition resolvePieColumn_client :: "row \<Rightarrow> int option \<Rightarrow> int \<times> cell" where
  \<comment> \<open>lines 228 to 268: the target column and the year of the dataset label\<close>
  "resolvePieColumn_client headers selectedYear =
     (let (idx1, year1) =
            (case selectedYear of
               None \<Rightarrow> (- 1, CUndefined)
             | Some y \<Rightarrow>
                 let found = findYearColumnIndex headers y
                 in if found = - 1 then
                      (let st = foldl (closestStep headers y)
                                  \<lparr>closestYear = None, minDifference = PInf,
                                   targetColumnIndex = - 1\<rparr>
                                  [1 ..< length headers]
                       in (targetColumnIndex st,
                           case closestYear st of
                             Some c \<Rightarrow> if c \<noteq> 0 then CNum (Fin (rat_of_int c))
                                       else CNum (Fin (rat_of_int y))
                           | None \<Rightarrow> CNum (Fin (rat_of_int y))))
                    else (found, CNum (Fin (rat_of_int y))))
      in if idx1 = - 1 \<and> length headers > 1 then (1, cell_at headers 1) else (idx1, year1))"

definition processDataForChart_client :: "chart_type \<Rightarrow> grid \<Rightarrow> int option \<Rightarrow> ChartData" where
  "processDataForChart_client type grid selectedYear =
     (case grid of
        row0 # row1 # rest \<Rightarrow>
          (let (headers, dataRows) = resolveHeader row0 row1 rest;
               filteredDataRows = filter keepDataRow dataRows;
               labels0 = rowLabels filteredDataRows
           in if type = Pie \<or> type = Doughnut then
                (let (targetColumnIndex, targetYear) = resolvePieColumn_client headers selectedYear
                 in if targetColumnIndex > 0
                    then pieResult labels0 targetYear
                           (extractPieChartData headers filteredDataRows (nat targetColumnIndex))
                    else \<lparr>labels = labels0, datasets = []\<rparr>)
              else
                \<lparr>labels = labels0,
                 datasets = map (\<lambda>i. \<lparr>label = columnLabel_client headers i,
                                       data = columnValues filteredDataRows i\<rparr>)
                                [1 ..< length headers]\<rparr>)
      | _ \<Rightarrow> \<lparr>labels = [], datasets = []\<rparr>)"

subsection \<open>Axis bounds\<close>

datatype y_bounds = No_bounds | Include_zero | Min_max jsnum jsnum

definition calculateYAxisBounds :: "chart_type \<Rightarrow> ChartData \<Rightarrow> y_bounds" where
  \<comment> \<open>\<open>No_bounds\<close> is the object \<open>{}\<close>, \<open>Include_zero\<close> is \<open>{ includeZero: true }\<close>, and
      \<open>Min_max lo hi\<close> is \<open>{ min: lo, max: hi, includeZero: true }\<close>\<close>
  "calculateYAxisBounds type chartData =
     (if type = Pie \<or> type = Doughnut then No_bounds
      else
        let allValues = concat (map data (datasets chartData))
        in if length allValues = 0 then Include_zero
           else
             let minValue = Math_min allValues;
                 maxValue = Math_max allValues;
                 range = js_abs (js_sub maxValue minValue);
                 padding = (if js_gt range (Fin 0) then js_mul range (Fin (15 / 100)) else Fin 1);
                 suggestedMin0 = (if js_lt minValue (Fin 0) then js_sub minValue padding
                                  else minValue);
                 suggestedMax0 = (if js_gt maxValue (Fin 0) then js_add maxValue padding
                                  else maxValue);
                 suggestedMin = (if js_gt minValue (Fin 0) then Fin 0 else suggestedMin0);
                 suggestedMax = (if js_lt maxValue (Fin 0) then Fin 0 else suggestedMax0)
             in Min_max suggestedMin suggestedMax)"

section \<open>The summary of the dashboard\<close>

text \<open>
  \<open>getDataSummary\<close> is in \<^verbatim>\<open>src/unnamed/part_000\<close> and in
  \<^verbatim>\<open>src/unnamed/part_001\<close>, in the same words.  The result \<open>null\<close> is \<open>None\<close>.
\<close>

record Summary =
  totalRegions :: nat
  totalYears :: int
  dataPoints :: int
  averageValue :: jsnum
  maxValue :: jsnum
  minValue :: jsnum

record stats =
  totalSum :: jsnum
  validValues :: nat
  runningMax :: jsnum
  runningMin :: jsnum

definition cellValue :: "cell \<Rightarrow> jsnum" where
  \<comment> \<open>\<open>parseFloat(String(rows[j][i] || 0))\<close>\<close>
  "cellValue c = parseFloat (toStr (or_else c (CNum (Fin 0))))"

definition summaryCell :: "stats \<Rightarrow> cell \<Rightarrow> stats" where
  \<comment> \<open>the body of the inner loop, on the cell \<open>rows[j][i]\<close>\<close>
  "summaryCell st c =
     (let value = cellValue c
      in if \<not> isNaN value
         then \<lparr>totalSum = js_add (totalSum st) value,
               validValues = validValues st + 1,
               runningMax = js_max (runningMax st) value,
               runningMin = js_min (runningMin st) value\<rparr>
         else st)"

definition summaryColumn :: "grid \<Rightarrow> stats \<Rightarrow> nat \<Rightarrow> stats" where
  \<comment> \<open>the inner loop over the rows, for column \<open>i\<close>\<close>
  "summaryColumn rows st i = foldl (\<lambda>s r. summaryCell s (cell_at r i)) st rows"

definition summaryLoop :: "row \<Rightarrow> grid \<Rightarrow> stats" where
  \<comment> \<open>the outer loop over the columns 1 to \<open>headers.length - 1\<close>\<close>
  "summaryLoop headers rows =
     foldl (summaryColumn rows)
       \<lparr>totalSum = Fin 0, validValues = 0, runningMax = Fin 0, runningMin = PInf\<rparr>
       [1 ..< length headers]"

definition getDataSummary :: "grid \<Rightarrow> Summary option" where
  "getDataSummary grid =
     (case grid of
        headers # row1 # rest \<Rightarrow>
          (let rows = row1 # rest;
               st = summaryLoop headers rows
           in Some \<lparr>totalRegions = length rows,
                    totalYears = int (length headers) - 1,
                    dataPoints = (int (length headers) - 1) * int (length rows),
                    averageValue = (if validValues st > 0
                                    then js_div (totalSum st) (Fin (rat_of_nat (validValues st)))
                                    else Fin 0),
                    maxValue = runningMax st,
                    minValue = (if runningMin st = PInf then Fin 0 else runningMin st)\<rparr>)
      | _ \<Rightarrow> None)"

section \<open>Resolution of the target year in proportion mode\<close>

lemma indexOf_ge: "- 1 \<le> indexOf ys x"
  by (induction ys) (auto simp: Let_def)

lemma indexOf_absent: "indexOf ys x = - 1 \<longleftrightarrow> x \<notin> set ys"
proof (induction ys)
  case Nil
  show ?case by simp
next
  case (Cons y ys)
  have "- 1 \<le> indexOf ys x" by (rule indexOf_ge)
  with Cons show ?case by (auto simp: Let_def)
qed








section \<open>Scenario A\<close>

text \<open>
  Claim C2, as amended.  For the grid of scenario A in line mode, with the selected years
  2022 and 2023, both variants produce the labels A and B and two datasets, labelled 2022
  and 2023, with the values 10, 5 and 20, 15: the replacement keeps the decimal point, so
  the cell \<open>Rp 15.000\<close> becomes the text \<open>15.000\<close> and parses to 15.
\<close>

theorem scenario_A_trend_series:
  "processDataForChart_part001 Line
     [[CStr ''Region'', CStr ''2022'', CStr ''2023''],
      [CStr ''A'', CStr ''10'', CStr ''20''],
      [CStr ''B'', CStr ''5'', CStr ''Rp 15.000'']] None [2022, 2023]
   = \<lparr>labels = [''A'', ''B''],
      datasets = [\<lparr>label = ''2022'', data = [Fin 10, Fin 5]\<rparr>,
                  \<lparr>label = ''2023'', data = [Fin 20, Fin 15]\<rparr>]\<rparr>
   \<and> processDataForChart_client Line
     [[CStr ''Region'', CStr ''2022'', CStr ''2023''],
      [CStr ''A'', CStr ''10'', CStr ''20''],
      [CStr ''B'', CStr ''5'', CStr ''Rp 15.000'']] None
   = \<lparr>labels = [''A'', ''B''],
      datasets = [\<lparr>label = ''2022'', data = [Fin 10, Fin 5]\<rparr>,
                  \<lparr>label = ''2023'', data = [Fin 20, Fin 15]\<rparr>]\<rparr>
   \<and> strip_non_numeric ''Rp 15.000'' = ''15.000''"
  by code_simp

theorem scenario_A_not_15000:
  "processDataForChart_part001 Line
     [[CStr ''Region'', CStr ''2022'', CStr ''2023''],
      [CStr ''A'', CStr ''10'', CStr ''20''],
      [CStr ''B'', CStr ''5'', CStr ''Rp 15.000'']] None [2022, 2023]
   \<noteq> \<lparr>labels = [''A'', ''B''],
       datasets = [\<lparr>label = ''2022'', data = [Fin 10, Fin 5]\<rparr>,
                   \<lparr>label = ''2023'', data = [Fin 20, Fin 15000]\<rparr>]\<rparr>"
  by code_simp

section \<open>Header resolution\<close>



section \<open>Series of the comparison and trend modes\<close>

lemma length_rowLabels: "length (rowLabels rows) = length rows"
  by (simp add: rowLabels_def)

lemma length_columnValues: "length (columnValues rows i) = length rows"
  by (simp add: columnValues_def)

text \<open>
  Claim C9.  In bar and line mode, over a grid whose resolved header row has C columns,
  both variants return C - 1 datasets (none for a header row without any column), and
  every dataset holds one sanitized value for each data row that the row filter keeps, in
  row order; the number of labels is the number of kept rows.
\<close>

theorem trend_series_count:
  assumes "type = Bar \<or> type = Line"
    and "resolveHeader row0 row1 rest = (headers, dataRows)"
    and "r = processDataForChart_client type (row0 # row1 # rest) selectedYear
         \<or> r = processDataForChart_part001 type (row0 # row1 # rest) selectedYear selectedYears"
  shows "length (datasets r) = length headers - 1
         \<and> (\<forall>d \<in> set (datasets r). length (data d) = length (labels r))
         \<and> length (labels r) = length (filter keepDataRow dataRows)
         \<and> (\<forall>i < length (datasets r).
               data (datasets r ! i)
               = map (\<lambda>row. sanitizeNumber (cell_at row (i + 1))) (filter keepDataRow dataRows))"
  using assms(3)
proof
  assume "r = processDataForChart_client type (row0 # row1 # rest) selectedYear"
  with assms(1,2) show ?thesis
    by (auto simp: processDataForChart_client_def Let_def length_rowLabels length_columnValues
          columnValues_def)
next
  assume "r = processDataForChart_part001 type (row0 # row1 # rest) selectedYear selectedYears"
  with assms(1,2) show ?thesis
    by (auto simp: processDataForChart_part001_def Let_def length_rowLabels length_columnValues
          columnValues_def)
qed

theorem trend_series_count_witness:
  "length (datasets (processDataForChart_client Line
      [[CStr ''Region'', CStr ''2022'', CStr ''2023''],
       [CStr ''A'', CStr ''10'', CStr ''20''],
       [CStr ''B'', CStr ''5'', CStr ''Rp 15.000'']] None)) = 2
   \<and> length (labels (processDataForChart_client Line
      [[CStr ''Region'', CStr ''2022'', CStr ''2023''],
       [CStr ''A'', CStr ''10'', CStr ''20''],
       [CStr ''B'', CStr ''5'', CStr ''Rp 15.000'']] None)) = 2
   \<and> length (datasets (processDataForChart_part001 Bar
      [[CStr ''Region'', CStr ''2022'', CStr ''2023''],
       [CStr ''A'', CStr ''10'', CStr ''20''],
       [CStr ''B'', CStr ''5'', CStr ''Rp 15.000'']] None [2022, 2023])) = 2"
proof -
  let ?h = "[CStr ''Region'', CStr ''2022'', CStr ''2023'']"
  let ?a = "[CStr ''A'', CStr ''10'', CStr ''20'']"
  let ?rest = "[[CStr ''B'', CStr ''5'', CStr ''Rp 15.000'']]"
  have rh: "resolveHeader ?h ?a ?rest = (?h, ?a # ?rest)" by code_simp
  have fk: "filter keepDataRow (?a # ?rest) = ?a # ?rest" by code_simp
  have t1: "Line = Bar \<or> Line = Line" and t2: "Bar = Bar \<or> Bar = Line" by simp_all
  have v1: "processDataForChart_client Line (?h # ?a # ?rest) None
              = processDataForChart_client Line (?h # ?a # ?rest) None
            \<or> processDataForChart_client Line (?h # ?a # ?rest) None
              = processDataForChart_part001 Line (?h # ?a # ?rest) None []"
    by simp
  have v2: "processDataForChart_part001 Bar (?h # ?a # ?rest) None [2022, 2023]
              = processDataForChart_client Bar (?h # ?a # ?rest) None
            \<or> processDataForChart_part001 Bar (?h # ?a # ?rest) None [2022, 2023]
              = processDataForChart_part001 Bar (?h # ?a # ?rest) None [2022, 2023]"
    by simp
  from trend_series_count [OF t1 rh v1, unfolded fk] trend_series_count [OF t2 rh v2, unfolded fk]
  show ?thesis by simp
qed

section \<open>Slices of the proportion mode\<close>

lemma indexOf_present: "x \<in> set ys \<Longrightarrow> 0 \<le> indexOf ys x"
  using indexOf_ge [of ys x] indexOf_absent [of ys x] by linarith

lemma extractPieRows_slices:
  "extractPieRows col k rows =
     (map fst (filter (\<lambda>(l, v). pieKeep l v)
                 (map (\<lambda>(j, r). (pieLabel r j, sanitizeNumberPie (cell_at r col))) (enumerate k rows))),
      map snd (filter (\<lambda>(l, v). pieKeep l v)
                 (map (\<lambda>(j, r). (pieLabel r j, sanitizeNumberPie (cell_at r col))) (enumerate k rows))))"
  by (induction rows arbitrary: k) (auto simp: Let_def)

lemma pieResult_slices:
  "pieResult labels0 ty (extractPieChartData headers rows col) =
     (let slices = filter (\<lambda>(l, v). pieKeep l v)
                 (map (\<lambda>(j, r). (pieLabel r j, sanitizeNumberPie (cell_at r col))) (enumerate 0 rows))
      in if slices \<noteq> []
         then \<lparr>labels = map fst slices,
               datasets = [\<lparr>label = ''Data Tahun '' @ toStr ty, data = map snd slices\<rparr>]\<rparr>
         else \<lparr>labels = labels0, datasets = []\<rparr>)"
proof -
  define slices where "slices = filter (\<lambda>(l, v). pieKeep l v)
       (map (\<lambda>(j, r). (pieLabel r j, sanitizeNumberPie (cell_at r col))) (enumerate 0 rows))"
  have "extractPieChartData headers rows col = (map fst slices, map snd slices)"
    unfolding extractPieChartData_def slices_def by (rule extractPieRows_slices)
  then have "pieResult labels0 ty (extractPieChartData headers rows col) =
     (if slices \<noteq> []
      then \<lparr>labels = map fst slices,
            datasets = [\<lparr>label = ''Data Tahun '' @ toStr ty, data = map snd slices\<rparr>]\<rparr>
      else \<lparr>labels = labels0, datasets = []\<rparr>)"
    by (simp add: pieResult_def)
  then show ?thesis unfolding slices_def Let_def .
qed

text \<open>
  Claim C7, as amended.  In pie and doughnut mode with a resolved target column, the
  slices are the kept rows whose label is not empty, does not contain \<open>total\<close> in any
  letter case, and whose sanitized value is strictly positive.  When there is at least one
  slice, the labels of the result are the labels of the slices and its single dataset holds
  their values, both in row order; when there is none, the result has no dataset.
\<close>

theorem proportion_filtering_law:
  assumes "type = Pie \<or> type = Doughnut"
    and "resolveHeader row0 row1 rest = (headers, dataRows)"
    and "(r = processDataForChart_part001 type (row0 # row1 # rest) (Some y) selectedYears
            \<and> y \<in> set selectedYears \<and> col = nat (1 + indexOf selectedYears y))
         \<or> (r = processDataForChart_client type (row0 # row1 # rest) selectedYear
            \<and> 0 < fst (resolvePieColumn_client headers selectedYear)
            \<and> col = nat (fst (resolvePieColumn_client headers selectedYear)))"
    and "slices = filter (\<lambda>(l, v). pieKeep l v)
                    (map (\<lambda>(j, row). (pieLabel row j, sanitizeNumberPie (cell_at row col)))
                       (enumerate 0 (filter keepDataRow dataRows)))"
  shows "(\<forall>(l, v) \<in> set slices. js_gt v (Fin 0) \<and> \<not> str_includes (toLowerCase l) ''total'')
         \<and> (slices \<noteq> [] \<longrightarrow> labels r = map fst slices \<and> map data (datasets r) = [map snd slices])
         \<and> (slices = [] \<longrightarrow> datasets r = [])"
proof -
  have law: "\<forall>(l, v) \<in> set slices. js_gt v (Fin 0) \<and> \<not> str_includes (toLowerCase l) ''total''"
    unfolding assms(4) by (auto simp: pieKeep_def)
  have r: "\<exists>labels0 ty. r = pieResult labels0 ty
              (extractPieChartData headers (filter keepDataRow dataRows) col)"
    using assms(3)
  proof
    assume a: "r = processDataForChart_part001 type (row0 # row1 # rest) (Some y) selectedYears
            \<and> y \<in> set selectedYears \<and> col = nat (1 + indexOf selectedYears y)"
    then have "0 \<le> indexOf selectedYears y" by (intro indexOf_present) simp
    moreover from a have "selectedYears \<noteq> []" by auto
    ultimately show ?thesis using a assms(1,2)
      by (auto simp: processDataForChart_part001_def Let_def)
  next
    assume a: "r = processDataForChart_client type (row0 # row1 # rest) selectedYear
            \<and> 0 < fst (resolvePieColumn_client headers selectedYear)
            \<and> col = nat (fst (resolvePieColumn_client headers selectedYear))"
    then show ?thesis using assms(1,2)
      by (auto simp: processDataForChart_client_def Let_def split: prod.splits)
  qed
  then obtain labels0 ty where
    "r = pieResult labels0 ty (extractPieChartData headers (filter keepDataRow dataRows) col)"
    by blast
  then have "r = (if slices \<noteq> []
         then \<lparr>labels = map fst slices,
               datasets = [\<lparr>label = ''Data Tahun '' @ toStr ty, data = map snd slices\<rparr>]\<rparr>
         else \<lparr>labels = labels0, datasets = []\<rparr>)"
    unfolding assms(4) pieResult_slices Let_def by simp
  then have "(slices \<noteq> [] \<longrightarrow> labels r = map fst slices \<and> map data (datasets r) = [map snd slices])
         \<and> (slices = [] \<longrightarrow> datasets r = [])"
    by simp
  with law show ?thesis by blast
qed

theorem proportion_filtering_law_witness:
  "labels (processDataForChart_part001 Pie
      [[CStr ''Region'', CStr ''2022'', CStr ''2023''],
       [CStr ''A'', CStr ''10'', CStr ''20''],
       [CStr ''B'', CStr ''5'', CStr ''Rp 15.000''],
       [CStr ''Total'', CStr ''15'', CStr ''35'']] (Some 2023) [2022, 2023]) = [''A'', ''B'']
   \<and> map data (datasets (processDataForChart_part001 Pie
      [[CStr ''Region'', CStr ''2022'', CStr ''2023''],
       [CStr ''A'', CStr ''10'', CStr ''20''],
       [CStr ''B'', CStr ''5'', CStr ''Rp 15.000''],
       [CStr ''Total'', CStr ''15'', CStr ''35'']] (Some 2023) [2022, 2023])) = [[Fin 20, Fin 15]]
   \<and> labels (processDataForChart_client Pie
      [[CStr ''Region'', CStr ''2022'', CStr ''2023''],
       [CStr ''A'', CStr ''10'', CStr ''20''],
       [CStr ''B'', CStr ''5'', CStr ''Rp 15.000''],
       [CStr ''Total'', CStr ''15'', CStr ''35'']] (Some 2023)) = [''A'', ''B'']"
proof -
  let ?h = "[CStr ''Region'', CStr ''2022'', CStr ''2023'']"
  let ?a = "[CStr ''A'', CStr ''10'', CStr ''20'']"
  let ?rest = "[[CStr ''B'', CStr ''5'', CStr ''Rp 15.000''], [CStr ''Total'', CStr ''15'', CStr ''35'']]"
  let ?sl = "[(''A'', Fin 20), (''B'', Fin 15)]"
  have t: "Pie = Pie \<or> Pie = Doughnut" by simp
  have rh: "resolveHeader ?h ?a ?rest = (?h, ?a # ?rest)" by code_simp
  have c2: "(processDataForChart_part001 Pie (?h # ?a # ?rest) (Some 2023) [2022, 2023]
              = processDataForChart_part001 Pie (?h # ?a # ?rest) (Some 2023) [2022, 2023]
            \<and> 2023 \<in> set [2022, 2023] \<and> 2 = nat (1 + indexOf [2022, 2023] 2023))
         \<or> (processDataForChart_part001 Pie (?h # ?a # ?rest) (Some 2023) [2022, 2023]
              = processDataForChart_client Pie (?h # ?a # ?rest) None
            \<and> 0 < fst (resolvePieColumn_client ?h None)
            \<and> 2 = nat (fst (resolvePieColumn_client ?h None)))"
    by simp
  have f1: "0 < fst (resolvePieColumn_client ?h (Some 2023))" by code_simp
  have f2: "2 = nat (fst (resolvePieColumn_client ?h (Some 2023)))" by code_simp
  have c1: "(processDataForChart_client Pie (?h # ?a # ?rest) (Some 2023)
              = processDataForChart_part001 Pie (?h # ?a # ?rest) (Some 2023) []
            \<and> 2023 \<in> set [] \<and> 2 = nat (1 + indexOf [] 2023))
         \<or> (processDataForChart_client Pie (?h # ?a # ?rest) (Some 2023)
              = processDataForChart_client Pie (?h # ?a # ?rest) (Some 2023)
            \<and> 0 < fst (resolvePieColumn_client ?h (Some 2023))
            \<and> 2 = nat (fst (resolvePieColumn_client ?h (Some 2023))))"
    using f1 f2 by blast
  have sl: "?sl = filter (\<lambda>(l, v). pieKeep l v)
                    (map (\<lambda>(j, row). (pieLabel row j, sanitizeNumberPie (cell_at row 2)))
                       (enumerate 0 (filter keepDataRow (?a # ?rest))))"
    by code_simp
  from proportion_filtering_law [OF t rh c2 sl] proportion_filtering_law [OF t rh c1 sl]
  show ?thesis by simp
qed

theorem proportion_labels_kept_without_slices:
  "processDataForChart_part001 Pie
      [[CStr ''Region'', CStr ''2022''], [CStr ''A'', CStr ''0''], [CStr ''Total'', CStr ''5'']]
      (Some 2022) [2022]
   = \<lparr>labels = [''A'', ''Total''], datasets = []\<rparr>
   \<and> extractPieChartData [CStr ''Region'', CStr ''2022'']
        [[CStr ''A'', CStr ''0''], [CStr ''Total'', CStr ''5'']] 1 = ([], [])"
  by code_simp

section \<open>Axis bounds of the comparison and trend modes\<close>

lemma js_min_cases: "a \<noteq> NaN \<Longrightarrow> b \<noteq> NaN \<Longrightarrow> js_min a b = a \<or> js_min a b = b"
  by (cases a; cases b) auto

lemma js_max_cases: "a \<noteq> NaN \<Longrightarrow> b \<noteq> NaN \<Longrightarrow> js_max a b = a \<or> js_max a b = b"
  by (cases a; cases b) auto

lemma foldl_js_min_in:
  "a \<noteq> NaN \<Longrightarrow> NaN \<notin> set xs \<Longrightarrow> foldl js_min a xs \<in> set (a # xs)"
proof (induction xs arbitrary: a)
  case Nil
  show ?case by simp
next
  case (Cons x xs)
  then have "js_min a x = a \<or> js_min a x = x" by (intro js_min_cases) auto
  moreover from Cons have "foldl js_min (js_min a x) xs \<in> set (js_min a x # xs)"
    using calculation by (intro Cons.IH) auto
  ultimately show ?case by auto
qed

lemma foldl_js_max_in:
  "a \<noteq> NaN \<Longrightarrow> NaN \<notin> set xs \<Longrightarrow> foldl js_max a xs \<in> set (a # xs)"
proof (induction xs arbitrary: a)
  case Nil
  show ?case by simp
next
  case (Cons x xs)
  then have "js_max a x = a \<or> js_max a x = x" by (intro js_max_cases) auto
  moreover from Cons have "foldl js_max (js_max a x) xs \<in> set (js_max a x # xs)"
    using calculation by (intro Cons.IH) auto
  ultimately show ?case by auto
qed

lemma Math_min_in: "xs \<noteq> [] \<Longrightarrow> NaN \<notin> set xs \<Longrightarrow> Math_min xs \<in> set xs"
proof (cases xs)
  case Nil
  assume "xs \<noteq> []" with Nil show ?thesis by simp
next
  case (Cons x ys)
  assume n: "NaN \<notin> set xs"
  with Cons have "x \<noteq> NaN" by auto
  then have "js_min PInf x = x" by (cases x) auto
  with foldl_js_min_in [of x ys] n Cons show ?thesis by (auto simp: Math_min_def)
qed

lemma Math_max_in: "xs \<noteq> [] \<Longrightarrow> NaN \<notin> set xs \<Longrightarrow> Math_max xs \<in> set xs"
proof (cases xs)
  case Nil
  assume "xs \<noteq> []" with Nil show ?thesis by simp
next
  case (Cons x ys)
  assume n: "NaN \<notin> set xs"
  with Cons have "x \<noteq> NaN" by auto
  then have "js_max NInf x = x" by (cases x) auto
  with foldl_js_max_in [of x ys] n Cons show ?thesis by (auto simp: Math_max_def)
qed

lemma padding_positive:
  "js_lt (Fin 0) (if js_gt rng (Fin 0) then js_mul rng (Fin (15 / 100)) else Fin 1)"
  by (cases rng) (auto simp: js_gt_def Let_def)

lemma lower_bound_ok:
  assumes "mn \<noteq> NaN" and "js_lt (Fin 0) pad"
  shows "js_le (if js_gt mn (Fin 0) then Fin 0
                else if js_lt mn (Fin 0) then js_sub mn pad else mn) (Fin 0)"
  using assms by (cases mn; cases pad) (auto simp: js_le_def js_gt_def js_sub_def)

lemma upper_bound_ok:
  assumes "mx \<noteq> NaN" and "js_lt (Fin 0) pad"
  shows "js_le (Fin 0) (if js_lt mx (Fin 0) then Fin 0
                else if js_gt mx (Fin 0) then js_add mx pad else mx)"
  using assms by (cases mx; cases pad) (auto simp: js_le_def js_gt_def js_sub_def)

lemma bounds_include_zero:
  assumes t: "type = Bar \<or> type = Line"
    and ne: "concat (map data (datasets cd)) \<noteq> []"
    and nn: "NaN \<notin> set (concat (map data (datasets cd)))"
  shows "\<exists>lo hi. calculateYAxisBounds type cd = Min_max lo hi
           \<and> js_le lo (Fin 0) \<and> js_le (Fin 0) hi
           \<and> ((\<forall>v \<in> set (concat (map data (datasets cd))). js_gt v (Fin 0)) \<longrightarrow> lo = Fin 0)
           \<and> ((\<forall>v \<in> set (concat (map data (datasets cd))). js_lt v (Fin 0)) \<longrightarrow> hi = Fin 0)"
proof -
  let ?xs = "concat (map data (datasets cd))"
  let ?mn = "Math_min ?xs" and ?mx = "Math_max ?xs"
  let ?pad = "if js_gt (js_abs (js_sub ?mx ?mn)) (Fin 0)
              then js_mul (js_abs (js_sub ?mx ?mn)) (Fin (15 / 100)) else Fin 1"
  let ?lo = "if js_gt ?mn (Fin 0) then Fin 0
             else if js_lt ?mn (Fin 0) then js_sub ?mn ?pad else ?mn"
  let ?hi = "if js_lt ?mx (Fin 0) then Fin 0
             else if js_gt ?mx (Fin 0) then js_add ?mx ?pad else ?mx"
  have mn_in: "?mn \<in> set ?xs" using ne nn by (rule Math_min_in)
  have mx_in: "?mx \<in> set ?xs" using ne nn by (rule Math_max_in)
  from mn_in nn have mn: "?mn \<noteq> NaN" by metis
  from mx_in nn have mx: "?mx \<noteq> NaN" by metis
  have pad: "js_lt (Fin 0) ?pad" by (rule padding_positive)
  have eq: "calculateYAxisBounds type cd = Min_max ?lo ?hi"
    using t ne by (auto simp: calculateYAxisBounds_def Let_def)
  have lo: "js_le ?lo (Fin 0)" using mn pad by (rule lower_bound_ok)
  have hi: "js_le (Fin 0) ?hi" using mx pad by (rule upper_bound_ok)
  have pos: "(\<forall>v \<in> set ?xs. js_gt v (Fin 0)) \<longrightarrow> ?lo = Fin 0"
    using mn_in by auto
  have neg: "(\<forall>v \<in> set ?xs. js_lt v (Fin 0)) \<longrightarrow> ?hi = Fin 0"
    using mx_in by auto
  from eq lo hi pos neg show ?thesis by blast
qed

lemma sanitizeNumber_not_NaN: "sanitizeNumber c \<noteq> NaN"
  by (cases "parseFloat (strip_non_numeric (toStr (or_else c (CNum (Fin 0)))))")
     (auto simp: sanitizeNumber_def Let_def)

lemma client_values_not_NaN:
  "type = Bar \<or> type = Line \<Longrightarrow>
   NaN \<notin> set (concat (map data (datasets (processDataForChart_client type grid selectedYear))))"
  by (auto simp: processDataForChart_client_def Let_def columnValues_def
        sanitizeNumber_not_NaN [THEN not_sym] split: list.splits prod.splits)

lemma part001_values_not_NaN:
  "type = Bar \<or> type = Line \<Longrightarrow>
   NaN \<notin> set (concat (map data
                 (datasets (processDataForChart_part001 type grid selectedYear selectedYears))))"
  by (auto simp: processDataForChart_part001_def Let_def columnValues_def
        sanitizeNumber_not_NaN [THEN not_sym] split: list.splits prod.splits)

text \<open>
  Claim C8.  In bar and line mode, when the datasets hold at least one value, the bounds
  are a minimum and a maximum with minimum \<open>\<le>\<close> 0 \<open>\<le>\<close> maximum; the minimum is 0 when all
  values are positive and the maximum is 0 when all values are negative.
\<close>

theorem axis_bounds_include_zero:
  assumes "type = Bar \<or> type = Line"
    and "cd = processDataForChart_client type grid selectedYear
         \<or> cd = processDataForChart_part001 type grid selectedYear selectedYears"
    and "concat (map data (datasets cd)) \<noteq> []"
  shows "\<exists>lo hi. calculateYAxisBounds type cd = Min_max lo hi
           \<and> js_le lo (Fin 0) \<and> js_le (Fin 0) hi
           \<and> ((\<forall>v \<in> set (concat (map data (datasets cd))). js_gt v (Fin 0)) \<longrightarrow> lo = Fin 0)
           \<and> ((\<forall>v \<in> set (concat (map data (datasets cd))). js_lt v (Fin 0)) \<longrightarrow> hi = Fin 0)"
proof -
  from assms(1,2) have "NaN \<notin> set (concat (map data (datasets cd)))"
    using client_values_not_NaN part001_values_not_NaN by blast
  with assms(1,3) show ?thesis by (rule bounds_include_zero)
qed

theorem axis_bounds_include_zero_witness:
  "\<exists>lo hi. calculateYAxisBounds Line (processDataForChart_client Line
      [[CStr ''Region'', CStr ''2022'', CStr ''2023''],
       [CStr ''A'', CStr ''10'', CStr ''-20''],
       [CStr ''B'', CStr ''5'', CStr ''Rp 15.000'']] None) = Min_max lo hi
     \<and> js_le lo (Fin 0) \<and> js_le (Fin 0) hi"
proof -
  let ?g = "[[CStr ''Region'', CStr ''2022'', CStr ''2023''],
       [CStr ''A'', CStr ''10'', CStr ''-20''],
       [CStr ''B'', CStr ''5'', CStr ''Rp 15.000'']]"
  have t: "Line = Bar \<or> Line = Line" by simp
  have v: "processDataForChart_client Line ?g None = processDataForChart_client Line ?g None
           \<or> processDataForChart_client Line ?g None = processDataForChart_part001 Line ?g None []"
    by simp
  have ne: "concat (map data (datasets (processDataForChart_client Line ?g None))) \<noteq> []"
    by code_simp
  from axis_bounds_include_zero [OF t v ne] show ?thesis by blast
qed

section \<open>The two variants compared\<close>

text \<open>
  Claim C3, as amended.  In bar and line mode the two variants return the same labels and
  the same values, in the same order, for every grid; they return the same dataset labels
  too, hence the same result, when for each data column the label that the client variant
  reads from the header text is the label that the other variant takes from the selected
  years or from the header.  In pie and doughnut mode they return the same result when the
  selected year is among the selected years and the header search of the client variant
  finds the column 1 + its position there.  Elsewhere the results can differ.
\<close>

theorem variants_agree_on_values:
  assumes "resolveHeader row0 row1 rest = (headers, dataRows)"
    and "r1 = processDataForChart_client type (row0 # row1 # rest) selectedYear"
    and "r2 = processDataForChart_part001 type (row0 # row1 # rest) selectedYear selectedYears"
  shows "(type = Bar \<or> type = Line \<longrightarrow>
            labels r1 = labels r2 \<and> map data (datasets r1) = map data (datasets r2)
            \<and> ((\<forall>i. 1 \<le> i \<and> i < length headers \<longrightarrow>
                    columnLabel_client headers i = columnLabel_part001 selectedYears headers i)
                 \<longrightarrow> r1 = r2))
         \<and> ((type = Pie \<or> type = Doughnut)
              \<and> (\<exists>y. selectedYear = Some y \<and> y \<in> set selectedYears
                      \<and> findYearColumnIndex headers y = 1 + indexOf selectedYears y)
            \<longrightarrow> r1 = r2)"
proof (intro conjI impI)
  assume t: "type = Bar \<or> type = Line"
  then show "labels r1 = labels r2"
    using assms by (auto simp: processDataForChart_client_def processDataForChart_part001_def Let_def)
  from t show "map data (datasets r1) = map data (datasets r2)"
    using assms
    by (auto simp: processDataForChart_client_def processDataForChart_part001_def Let_def o_def)
  assume "\<forall>i. 1 \<le> i \<and> i < length headers \<longrightarrow>
            columnLabel_client headers i = columnLabel_part001 selectedYears headers i"
  then have "map (\<lambda>i. \<lparr>label = columnLabel_client headers i,
                        data = columnValues (filter keepDataRow dataRows) i\<rparr>)
                 [1 ..< length headers]
           = map (\<lambda>i. \<lparr>label = columnLabel_part001 selectedYears headers i,
                        data = columnValues (filter keepDataRow dataRows) i\<rparr>)
                 [1 ..< length headers]"
    by (intro map_cong) auto
  with t show "r1 = r2"
    using assms by (auto simp: processDataForChart_client_def processDataForChart_part001_def Let_def)
next
  assume a: "(type = Pie \<or> type = Doughnut)
              \<and> (\<exists>y. selectedYear = Some y \<and> y \<in> set selectedYears
                      \<and> findYearColumnIndex headers y = 1 + indexOf selectedYears y)"
  then obtain y where y: "selectedYear = Some y" "y \<in> set selectedYears"
      "findYearColumnIndex headers y = 1 + indexOf selectedYears y"
    by blast
  from y(2) have i0: "0 \<le> indexOf selectedYears y"
    using indexOf_ge [of selectedYears y] indexOf_absent [of selectedYears y] by linarith
  from y(2) have ne: "selectedYears \<noteq> []" by auto
  from y(3) i0 have rp: "resolvePieColumn_client headers (Some y)
                          = (1 + indexOf selectedYears y, CNum (Fin (rat_of_int y)))"
    by (simp add: resolvePieColumn_client_def Let_def)
  from a y(1) i0 ne rp show "r1 = r2"
    using assms by (auto simp: processDataForChart_client_def processDataForChart_part001_def Let_def)
qed

theorem variants_agree_on_values_witness:
  "processDataForChart_client Line
     [[CStr ''Region'', CStr ''2022'', CStr ''2023''],
      [CStr ''A'', CStr ''10'', CStr ''20'']] None
   = processDataForChart_part001 Line
     [[CStr ''Region'', CStr ''2022'', CStr ''2023''],
      [CStr ''A'', CStr ''10'', CStr ''20'']] None [2022, 2023]
   \<and> processDataForChart_client Pie
     [[CStr ''Region'', CStr ''2022'', CStr ''2023''],
      [CStr ''A'', CStr ''10'', CStr ''20'']] (Some 2023)
   = processDataForChart_part001 Pie
     [[CStr ''Region'', CStr ''2022'', CStr ''2023''],
      [CStr ''A'', CStr ''10'', CStr ''20'']] (Some 2023) [2022, 2023]"
proof -
  let ?h = "[CStr ''Region'', CStr ''2022'', CStr ''2023'']"
  let ?a = "[CStr ''A'', CStr ''10'', CStr ''20'']"
  have rh: "resolveHeader ?h ?a [] = (?h, [?a])" by code_simp
  have t1: "Line = Bar \<or> Line = Line" by simp
  have c1: "columnLabel_client ?h 1 = columnLabel_part001 [2022, 2023] ?h 1" by code_simp
  have c2: "columnLabel_client ?h 2 = columnLabel_part001 [2022, 2023] ?h 2" by code_simp
  have cl: "\<forall>i. 1 \<le> i \<and> i < length ?h \<longrightarrow>
              columnLabel_client ?h i = columnLabel_part001 [2022, 2023] ?h i"
  proof (intro allI impI)
    fix i :: nat assume "1 \<le> i \<and> i < length ?h"
    then have "i = 1 \<or> i = 2" by auto
    with c1 c2 show "columnLabel_client ?h i = columnLabel_part001 [2022, 2023] ?h i" by auto
  qed
  have t2: "Pie = Pie \<or> Pie = Doughnut" by simp
  have f: "findYearColumnIndex ?h 2023 = 1 + indexOf [2022, 2023] 2023" by code_simp
  have p: "\<exists>y. Some (2023::int) = Some y \<and> y \<in> set [2022, 2023]
              \<and> findYearColumnIndex ?h y = 1 + indexOf [2022, 2023] y"
    using f by auto
  from variants_agree_on_values [OF rh refl refl, of Line None "[2022, 2023]"] t1 cl
       variants_agree_on_values [OF rh refl refl, of Pie "Some 2023" "[2022, 2023]"] t2 p
  show ?thesis by blast
qed

theorem variants_differ:
  "processDataForChart_client Bar [[CStr ''Region'', CStr ''Jumlah''], [CStr ''A'', CStr ''5'']] None
   = \<lparr>labels = [''A''], datasets = [\<lparr>label = ''Jumlah'', data = [Fin 5]\<rparr>]\<rparr>
   \<and> processDataForChart_part001 Bar [[CStr ''Region'', CStr ''Jumlah''], [CStr ''A'', CStr ''5'']] None []
   = \<lparr>labels = [''A''], datasets = [\<lparr>label = ''Tahun 1'', data = [Fin 5]\<rparr>]\<rparr>
   \<and> processDataForChart_client Pie
     [[CStr ''Region'', CStr ''2022'', CStr ''2023''],
      [CStr ''A'', CStr ''10'', CStr ''20'']] (Some 1999)
   \<noteq> processDataForChart_part001 Pie
     [[CStr ''Region'', CStr ''2022'', CStr ''2023''],
      [CStr ''A'', CStr ''10'', CStr ''20'']] (Some 1999) [2022, 2023]"
  by code_simp

section \<open>The summary\<close>

lemma foldl_over_concat: "foldl f a (concat xss) = foldl (foldl f) a xss"
  by (induction xss arbitrary: a) auto

lemma foldl_summaryCell:
  "foldl summaryCell st cells =
     \<lparr>totalSum = foldl js_add (totalSum st) (filter (\<lambda>v. \<not> isNaN v) (map cellValue cells)),
      validValues = validValues st + length (filter (\<lambda>v. \<not> isNaN v) (map cellValue cells)),
      runningMax = foldl js_max (runningMax st) (filter (\<lambda>v. \<not> isNaN v) (map cellValue cells)),
      runningMin = foldl js_min (runningMin st) (filter (\<lambda>v. \<not> isNaN v) (map cellValue cells))\<rparr>"
proof (induction cells arbitrary: st)
  case Nil
  show ?case by simp
next
  case (Cons c cells)
  show ?case
    unfolding foldl_Cons Cons.IH by (simp add: summaryCell_def Let_def)
qed

lemma summaryLoop_cells:
  "summaryLoop headers rows =
     foldl summaryCell
       \<lparr>totalSum = Fin 0, validValues = 0, runningMax = Fin 0, runningMin = PInf\<rparr>
       (concat (map (\<lambda>i. map (\<lambda>r. cell_at r i) rows) [1 ..< length headers]))"
proof -
  have col: "summaryColumn rows = (\<lambda>st i. foldl summaryCell st (map (\<lambda>r. cell_at r i) rows))"
    by (intro ext) (simp add: summaryColumn_def foldl_map)
  show ?thesis
    unfolding summaryLoop_def col foldl_over_concat foldl_map ..
qed

lemma filter_not_NaN: "NaN \<notin> set (filter (\<lambda>v. \<not> isNaN v) xs)"
  by auto

lemma js_le_max_left: "a \<noteq> NaN \<Longrightarrow> b \<noteq> NaN \<Longrightarrow> js_le a (js_max a b)"
  by (cases a; cases b) (auto simp: js_le_def)

lemma js_max_not_NaN: "a \<noteq> NaN \<Longrightarrow> b \<noteq> NaN \<Longrightarrow> js_max a b \<noteq> NaN"
  by (cases a; cases b) auto

lemma js_le_trans: "js_le a b \<Longrightarrow> js_le b c \<Longrightarrow> js_le a c"
  by (cases a; cases b; cases c) (auto simp: js_le_def)

lemma js_le_refl: "a \<noteq> NaN \<Longrightarrow> js_le a a"
  by (cases a) (auto simp: js_le_def)

lemma foldl_js_max_ge:
  "a \<noteq> NaN \<Longrightarrow> NaN \<notin> set xs \<Longrightarrow> js_le a (foldl js_max a xs)"
proof (induction xs arbitrary: a)
  case Nil
  then show ?case by (simp add: js_le_refl)
next
  case (Cons x xs)
  then have 1: "js_le a (js_max a x)" by (intro js_le_max_left) auto
  from Cons have "js_max a x \<noteq> NaN" by (intro js_max_not_NaN) auto
  with Cons have "js_le (js_max a x) (foldl js_max (js_max a x) xs)" by (intro Cons.IH) auto
  with 1 show ?case by (auto intro: js_le_trans)
qed

lemma foldl_js_max_negative:
  "\<forall>v \<in> set xs. js_lt v (Fin 0) \<Longrightarrow> foldl js_max (Fin 0) xs = Fin 0"
proof (induction xs)
  case Nil
  show ?case by simp
next
  case (Cons x xs)
  then have "js_max (Fin 0) x = Fin 0" by (cases x) auto
  with Cons show ?case by simp
qed

lemma foldl_js_min_all_PInf:
  "\<forall>v \<in> set xs. v = PInf \<Longrightarrow> foldl js_min PInf xs = PInf"
  by (induction xs) auto

lemma js_min_PInf_iff: "a \<noteq> NaN \<Longrightarrow> b \<noteq> NaN \<Longrightarrow> js_min a b = PInf \<longleftrightarrow> a = PInf \<and> b = PInf"
  by (cases a; cases b) auto

lemma js_min_not_NaN: "a \<noteq> NaN \<Longrightarrow> b \<noteq> NaN \<Longrightarrow> js_min a b \<noteq> NaN"
  by (cases a; cases b) auto

lemma foldl_js_min_PInf_iff:
  "a \<noteq> NaN \<Longrightarrow> NaN \<notin> set xs \<Longrightarrow>
   foldl js_min a xs = PInf \<longleftrightarrow> a = PInf \<and> (\<forall>v \<in> set xs. v = PInf)"
proof (induction xs arbitrary: a)
  case Nil
  show ?case by simp
next
  case (Cons x xs)
  then have x: "x \<noteq> NaN" by auto
  with Cons have "js_min a x \<noteq> NaN" by (intro js_min_not_NaN)
  with Cons have "foldl js_min (js_min a x) xs = PInf
                  \<longleftrightarrow> js_min a x = PInf \<and> (\<forall>v \<in> set xs. v = PInf)"
    by (intro Cons.IH) auto
  with Cons x show ?case by (auto simp: js_min_PInf_iff)
qed

text \<open>
  Claim C4, as amended.  \<open>getDataSummary\<close> visits every cell of the data rows outside the
  label column, column by column, and reads each with \<open>parseFloat(String(cell || 0))\<close>,
  without removing any character.  The cells that do not parse are skipped: the sum, the
  count, the running maximum and the running minimum are those of the parsed values alone.
  A formatted cell such as \<open>Rp 15.000\<close> does not parse and contributes nothing.
\<close>

theorem summary_skips_unparsed_cells:
  assumes "cells = concat (map (\<lambda>i. map (\<lambda>r. cell_at r i) (row1 # rest)) [1 ..< length headers])"
    and "vals = filter (\<lambda>v. \<not> isNaN v) (map cellValue cells)"
  shows "getDataSummary (headers # row1 # rest) =
           Some \<lparr>totalRegions = length (row1 # rest),
                 totalYears = int (length headers) - 1,
                 dataPoints = (int (length headers) - 1) * int (length (row1 # rest)),
                 averageValue = (if length vals > 0
                                 then js_div (foldl js_add (Fin 0) vals)
                                        (Fin (rat_of_nat (length vals)))
                                 else Fin 0),
                 maxValue = foldl js_max (Fin 0) vals,
                 minValue = (if foldl js_min PInf vals = PInf then Fin 0
                             else foldl js_min PInf vals)\<rparr>"
  unfolding getDataSummary_def assms summaryLoop_cells foldl_summaryCell
  by (simp add: Let_def)

theorem summary_skips_unparsed_cells_witness:
  "getDataSummary
     [[CStr ''Region'', CStr ''2022'', CStr ''2023''],
      [CStr ''A'', CStr ''10'', CStr ''abc''],
      [CStr ''B'', CStr '' -2.5kg'', CNum (Fin 4)]]
   = Some \<lparr>totalRegions = 2, totalYears = 2, dataPoints = 4,
           averageValue = Fin (23 / 6), maxValue = Fin 10, minValue = Fin (- 5 / 2)\<rparr>"
proof -
  let ?h = "[CStr ''Region'', CStr ''2022'', CStr ''2023'']"
  let ?a = "[CStr ''A'', CStr ''10'', CStr ''abc'']"
  let ?b = "[CStr ''B'', CStr '' -2.5kg'', CNum (Fin 4)]"
  have c: "[CStr ''10'', CStr '' -2.5kg'', CStr ''abc'', CNum (Fin 4)]
           = concat (map (\<lambda>i. map (\<lambda>r. cell_at r i) (?a # [?b])) [1 ..< length ?h])"
    by code_simp
  have v: "[Fin 10, Fin (- 5 / 2), Fin 4]
           = filter (\<lambda>v. \<not> isNaN v)
               (map cellValue [CStr ''10'', CStr '' -2.5kg'', CStr ''abc'', CNum (Fin 4)])"
    by code_simp
  from summary_skips_unparsed_cells [OF c v] show ?thesis by simp
qed

theorem summary_drops_formatted_cell:
  "cellValue (CStr ''Rp 15.000'') = NaN
   \<and> sanitizeNumber (CStr ''Rp 15.000'') = Fin 15
   \<and> validValues (summaryLoop [CStr ''Region'', CStr ''2022'']
                     [[CStr ''A'', CStr ''Rp 15.000''], [CStr ''B'', CStr ''7'']]) = 1
   \<and> getDataSummary
       [[CStr ''Region'', CStr ''2022''],
        [CStr ''A'', CStr ''Rp 15.000''],
        [CStr ''B'', CStr ''7'']]
     = Some \<lparr>totalRegions = 2, totalYears = 1, dataPoints = 2,
             averageValue = Fin 7, maxValue = Fin 7, minValue = Fin 7\<rparr>"
  by code_simp

text \<open>
  Claim C10, as amended.  For a grid with a header row and at least one data row, the
  maximum of the summary is at least 0, and it is 0 when every parsed value is negative.
  The minimum is 0 in place of the sentinel when the running minimum is still
  \<open>+Infinity\<close> at the end, that is when no cell parses or when every parsed value is
  \<open>+Infinity\<close>; otherwise it is the least parsed value.
\<close>

theorem summary_max_at_least_zero:
  assumes "getDataSummary (headers # row1 # rest) = Some s"
    and "vals = filter (\<lambda>v. \<not> isNaN v)
                  (map cellValue
                     (concat (map (\<lambda>i. map (\<lambda>r. cell_at r i) (row1 # rest)) [1 ..< length headers])))"
  shows "js_le (Fin 0) (maxValue s)
         \<and> ((\<forall>v \<in> set vals. js_lt v (Fin 0)) \<longrightarrow> maxValue s = Fin 0)
         \<and> ((\<forall>v \<in> set vals. v = PInf) \<longrightarrow> minValue s = Fin 0)
         \<and> ((\<exists>v \<in> set vals. v \<noteq> PInf) \<longrightarrow> minValue s = Math_min vals \<and> minValue s \<in> set vals)"
proof -
  have nn: "NaN \<notin> set vals" unfolding assms(2) by (rule filter_not_NaN)
  have st: "summaryLoop headers (row1 # rest) =
     \<lparr>totalSum = foldl js_add (Fin 0) vals, validValues = length vals,
      runningMax = foldl js_max (Fin 0) vals, runningMin = foldl js_min PInf vals\<rparr>"
    unfolding summaryLoop_cells foldl_summaryCell assms(2) by simp
  from assms(1) have mx: "maxValue s = foldl js_max (Fin 0) vals"
    and mn: "minValue s = (if foldl js_min PInf vals = PInf then Fin 0 else foldl js_min PInf vals)"
    by (auto simp: getDataSummary_def Let_def st)
  have 1: "js_le (Fin 0) (maxValue s)"
    unfolding mx using nn by (intro foldl_js_max_ge) auto
  have 2: "(\<forall>v \<in> set vals. js_lt v (Fin 0)) \<longrightarrow> maxValue s = Fin 0"
    unfolding mx by (auto intro: foldl_js_max_negative)
  have iff: "foldl js_min PInf vals = PInf \<longleftrightarrow> (\<forall>v \<in> set vals. v = PInf)"
    using foldl_js_min_PInf_iff [of PInf vals] nn by simp
  have 3: "(\<forall>v \<in> set vals. v = PInf) \<longrightarrow> minValue s = Fin 0"
    unfolding mn using iff by simp
  have 4: "(\<exists>v \<in> set vals. v \<noteq> PInf) \<longrightarrow> minValue s = Math_min vals \<and> minValue s \<in> set vals"
  proof
    assume e: "\<exists>v \<in> set vals. v \<noteq> PInf"
    then have ne: "vals \<noteq> []" by auto
    from e iff have "foldl js_min PInf vals \<noteq> PInf" by blast
    then have m: "minValue s = Math_min vals" unfolding mn Math_min_def by simp
    moreover have "Math_min vals \<in> set vals" using ne nn by (rule Math_min_in)
    ultimately show "minValue s = Math_min vals \<and> minValue s \<in> set vals" by simp
  qed
  from 1 2 3 4 show ?thesis by blast
qed

theorem summary_max_at_least_zero_witness:
  "js_le (Fin 0) (Fin 0)
   \<and> getDataSummary [[CStr ''Region'', CStr ''2022''], [CStr ''A'', CStr ''-3''], [CStr ''B'', CStr ''-1.5'']]
     = Some \<lparr>totalRegions = 2, totalYears = 1, dataPoints = 2,
             averageValue = Fin (- 9 / 4), maxValue = Fin 0, minValue = Fin (- 3)\<rparr>
   \<and> Fin (- 3) = Math_min [Fin (- 3), Fin (- 3 / 2)]
   \<and> getDataSummary [[CStr ''Region'', CStr ''2022''], [CStr ''A'', CStr ''Infinity''], [CStr ''B'', CStr ''x'']]
     = Some \<lparr>totalRegions = 2, totalYears = 1, dataPoints = 2,
             averageValue = PInf, maxValue = PInf, minValue = Fin 0\<rparr>"
proof -
  let ?h = "[CStr ''Region'', CStr ''2022'']"
  let ?s1 = "\<lparr>totalRegions = 2, totalYears = 1, dataPoints = 2,
             averageValue = Fin (- 9 / 4), maxValue = Fin 0, minValue = Fin (- 3)\<rparr>"
  let ?s2 = "\<lparr>totalRegions = 2, totalYears = 1, dataPoints = 2,
             averageValue = PInf, maxValue = PInf, minValue = Fin 0\<rparr>"
  have g1: "getDataSummary (?h # [CStr ''A'', CStr ''-3''] # [[CStr ''B'', CStr ''-1.5'']]) = Some ?s1"
    by code_simp
  have v1: "[Fin (- 3), Fin (- 3 / 2)] = filter (\<lambda>v. \<not> isNaN v)
              (map cellValue
                 (concat (map (\<lambda>i. map (\<lambda>r. cell_at r i)
                                 ([CStr ''A'', CStr ''-3''] # [[CStr ''B'', CStr ''-1.5'']]))
                            [1 ..< length ?h])))"
    by code_simp
  have g2: "getDataSummary (?h # [CStr ''A'', CStr ''Infinity''] # [[CStr ''B'', CStr ''x'']]) = Some ?s2"
    by code_simp
  have v2: "[PInf] = filter (\<lambda>v. \<not> isNaN v)
              (map cellValue
                 (concat (map (\<lambda>i. map (\<lambda>r. cell_at r i)
                                 ([CStr ''A'', CStr ''Infinity''] # [[CStr ''B'', CStr ''x'']]))
                            [1 ..< length ?h])))"
    by code_simp
  from summary_max_at_least_zero [OF g1 v1] summary_max_at_least_zero [OF g2 v2] g1 g2
  show ?thesis by simp
qed

theorem summary_min_reset_with_parsed_cell:
  "cellValue (CStr ''Infinity'') = PInf
   \<and> \<not> isNaN (cellValue (CStr ''Infinity''))
   \<and> validValues (summaryLoop [CStr ''Region'', CStr ''2022''] [[CStr ''A'', CStr ''Infinity'']]) = 1
   \<and> getDataSummary [[CStr ''Region'', CStr ''2022''], [CStr ''A'', CStr ''Infinity'']]
     = Some \<lparr>totalRegions = 1, totalYears = 1, dataPoints = 1,
             averageValue = PInf, maxValue = PInf, minValue = Fin 0\<rparr>"
  by code_simp

section \<open>Printing and parsing decimal numbers\<close>















































end
